theory Spec2Isabelle
  imports Main "HOL-Library.Word"
begin

section \<open>Python values used by the backend\<close>

text \<open>
  A Python \<open>str\<close> is a sequence of Unicode code points, so it is modelled as a list of
  code points. The sources contain Japanese literals; they are written out as their code points.
  \<open>ustr\<close> turns an ASCII literal into such a string.
\<close>

type_synonym pystr = "nat list"

definition ustr :: "string \<Rightarrow> pystr" where
  "ustr s = map of_char s"

text \<open>A Python \<open>float\<close> is carried as its IEEE-754 bit pattern; no arithmetic is done on it.\<close>

type_synonym pyfloat = "64 word"

text \<open>\<open>str.startswith(p)\<close>, \<open>str.endswith(p)\<close> and \<open>str.endswith((p1, p2, ...))\<close>.\<close>

definition py_startswith :: "pystr \<Rightarrow> pystr \<Rightarrow> bool" where
  "py_startswith s p = (take (length p) s = p)"

definition py_endswith :: "pystr \<Rightarrow> pystr \<Rightarrow> bool" where
  "py_endswith s p = (length p \<le> length s \<and> drop (length s - length p) s = p)"

definition py_endswith_any :: "pystr \<Rightarrow> pystr list \<Rightarrow> bool" where
  "py_endswith_any s ps = list_ex (py_endswith s) ps"

text \<open>\<open>sep.join(parts)\<close>.\<close>

fun py_join :: "pystr \<Rightarrow> pystr list \<Rightarrow> pystr" where
  "py_join sep [] = []"
| "py_join sep [x] = x"
| "py_join sep (x # y # ys) = x @ sep @ py_join sep (y # ys)"

text \<open>\<open>str(n)\<close> for a non-negative integer: its decimal digits.\<close>

fun str_nat :: "nat \<Rightarrow> pystr" where
  "str_nat n = (if n < 10 then [48 + n] else str_nat (n div 10) @ [48 + n mod 10])"

declare str_nat.simps [simp del]

text \<open>A dictionary with string keys, as its items; \<open>d.get(k)\<close> is \<open>map_of d k\<close>.\<close>

type_synonym 'v pydict = "(pystr \<times> 'v) list"

datatype py_error = KeyError pystr | TypeError

section \<open>Prompt assembly (\<open>llm.py\<close>, \<open>create_rag_prompt\<close>)\<close>

text \<open>
  A context item is a dictionary. The function reads \<open>item["content"]\<close>, which raises
  \<open>KeyError\<close> when the key is absent, and \<open>item.get("metadata", {})\<close>, whose
  \<open>"filename"\<close> entry defaults to the two characters U+4E0D U+660E ("unknown").
\<close>

record context_item =
  item_content :: "pystr option"
  item_metadata :: "pystr pydict option"

definition unknown_filename :: pystr where
  "unknown_filename = [19981, 26126]"

definition reference_word :: pystr where
  "reference_word = [21442, 32771, 36039, 26009]"

definition item_filename :: "context_item \<Rightarrow> pystr" where
  "item_filename item =
     (let md = (case item_metadata item of None \<Rightarrow> [] | Some d \<Rightarrow> d)
      in case map_of md (ustr ''filename'') of None \<Rightarrow> unknown_filename | Some f \<Rightarrow> f)"

text \<open>The f-string \<open>"[<reference> {i}: {filename}]\n{content}"\<close>.\<close>

definition context_part :: "nat \<Rightarrow> pystr \<Rightarrow> pystr \<Rightarrow> pystr" where
  "context_part i filename c =
     ustr ''['' @ reference_word @ ustr '' '' @ str_nat i @ ustr '': '' @ filename
       @ ustr '']'' @ [10] @ c"

text \<open>The loop \<open>for i, item in enumerate(context, 1)\<close>, appending to \<open>context_parts\<close>.\<close>

fun build_context_parts ::
  "nat \<Rightarrow> context_item list \<Rightarrow> pystr list \<Rightarrow> py_error + pystr list" where
  "build_context_parts i [] context_parts = Inr context_parts"
| "build_context_parts i (item # rest) context_parts =
     (case item_content item of
        None \<Rightarrow> Inl (KeyError (ustr ''content''))
      | Some c \<Rightarrow>
          build_context_parts (Suc i) rest
            (context_parts @ [context_part i (item_filename item) c]))"

definition create_rag_prompt :: "context_item list \<Rightarrow> pystr \<Rightarrow> py_error + pystr" where
  "create_rag_prompt context question =
     (if context = [] then Inr question
      else case build_context_parts 1 context [] of
             Inl e \<Rightarrow> Inl e
           | Inr context_parts \<Rightarrow>
               Inr (question @ [10, 10] @ reference_word @ ustr '':'' @ [10]
                      @ py_join [10, 10] context_parts))"

text \<open>
  What the specification says the reference section is: the entry at 0-based position \<open>k\<close>
  is labelled with \<open>k + 1\<close> and the item's filename and is followed by the item's text.
\<close>

definition reference_entry :: "context_item list \<Rightarrow> nat \<Rightarrow> pystr" where
  "reference_entry context k =
     context_part (k + 1) (item_filename (context ! k)) (the (item_content (context ! k)))"

definition reference_section :: "context_item list \<Rightarrow> pystr" where
  "reference_section context =
     py_join [10, 10] (map (reference_entry context) [0..<length context])"

definition has_content :: "context_item \<Rightarrow> bool" where
  "has_content item = (item_content item \<noteq> None)"

definition example_context :: "context_item list" where
  "example_context =
     [\<lparr>item_content = Some (ustr ''alpha''),
       item_metadata = Some [(ustr ''filename'', ustr ''a.md'')]\<rparr>,
      \<lparr>item_content = Some (ustr ''beta''), item_metadata = None\<rparr>]"

section \<open>The completion client (\<open>llm.py\<close>, \<open>LLMClient.chat_completion\<close>)\<close>

text \<open>
  \<open>Message\<close> has the attributes \<open>role\<close> and \<open>content\<close>. The client keeps the base URL
  and the model name it read from the settings; the type of the URL is a parameter, since
  the settings update may store any JSON value there.
\<close>

record message =
  role :: pystr
  content :: pystr

record 'u LLMClient =
  base_url :: 'u
  model :: pystr

text \<open>\<open>DEFAULT_SYSTEM_PROMPT\<close>: three lines of Japanese text, 90 code points.\<close>

definition DEFAULT_SYSTEM_PROMPT :: pystr where
  "DEFAULT_SYSTEM_PROMPT =
     [12354, 12394, 12383, 12399, 35242, 20999, 12391, 30693, 35672, 35914, 23500, 12394, 65,
      73, 12450, 12471, 12473, 12479, 12531, 12488, 12391, 12377, 12290, 10, 12518, 12540,
      12470, 12540, 12398, 36074, 21839, 12395, 23550, 12375, 12390, 12289, 27491, 30906,
      12391, 20998, 12363, 12426, 12420, 12377, 12356, 22238, 31572, 12434, 25552, 20379,
      12375, 12390, 12367, 12384, 12373, 12356, 12290, 10, 25552, 20379, 12373, 12428, 12383,
      21442, 32771, 36039, 26009, 12364, 12354, 12427, 22580, 21512, 12399, 12289, 12381,
      12428, 12434, 27963, 29992, 12375, 12390, 22238, 31572, 12375, 12390, 12367, 12384,
      12373, 12356, 12290]"

text \<open>The list comprehension building \<open>messages_dict\<close>, one dictionary per message.\<close>

definition message_to_dict :: "message \<Rightarrow> pystr pydict" where
  "message_to_dict msg = [(ustr ''role'', role msg), (ustr ''content'', content msg)]"

definition default_system_message :: "pystr pydict" where
  "default_system_message =
     [(ustr ''role'', ustr ''system''), (ustr ''content'', DEFAULT_SYSTEM_PROMPT)]"

text \<open>
  \<open>if not messages_dict or messages_dict[0].get("role") != "system": messages_dict.insert(0, ...)\<close>
\<close>

definition add_system_prompt :: "pystr pydict list \<Rightarrow> pystr pydict list" where
  "add_system_prompt messages_dict =
     (case messages_dict of
        [] \<Rightarrow> [default_system_message]
      | first # _ \<Rightarrow>
          if map_of first (ustr ''role'') = Some (ustr ''system'') then messages_dict
          else default_system_message # messages_dict)"

record payload =
  payload_model :: pystr
  payload_messages :: "pystr pydict list"
  payload_temperature :: pyfloat
  payload_stream :: bool

record request =
  request_method :: pystr
  request_url :: pystr
  request_json :: payload

text \<open>
  What the HTTP library hands back. A request either fails in transport or is answered by a
  response with a status code, its body as text (\<open>response.text\<close>) and, when streamed, the
  lines of \<open>response.aiter_lines()\<close>; \<open>stream_broken\<close> says that the connection fails
  after the last of these lines instead of ending.
\<close>

record response =
  status_code :: nat
  response_text :: pystr
  stream_lines :: "pystr list"
  stream_broken :: bool

datatype reply = ConnectionFailed | Answered response

datatype http_error = TransportError | HTTPStatusError nat

text \<open>
  \<open>response.raise_for_status()\<close> of the HTTP library (httpx), as its documentation has it:
  it raises \<open>HTTPStatusError\<close> unless the status code is a success code, 200 to 299.
\<close>

definition raise_for_status :: "response \<Rightarrow> http_error option" where
  "raise_for_status r =
     (if 200 \<le> status_code r \<and> status_code r \<le> 299 then None
      else Some (HTTPStatusError (status_code r)))"

text \<open>The network: how the backend answers a request, and the requests sent so far.\<close>

record network =
  backend :: "request \<Rightarrow> reply"
  sent :: "request list"

text \<open>
  The loop over the lines of a streamed response. It returns the values yielded and how the
  loop was left: by \<open>break\<close> at the terminal marker, or because the lines ran out.
\<close>

datatype loop_exit = Break | Exhausted

definition data_prefix :: pystr where
  "data_prefix = ustr ''data: ''"

definition done_marker :: pystr where
  "done_marker = ustr ''[DONE]''"

fun stream_loop :: "pystr list \<Rightarrow> pystr list \<times> loop_exit" where
  "stream_loop [] = ([], Exhausted)"
| "stream_loop (line # rest) =
     (if py_startswith line data_prefix then
        (let data = drop 6 line
         in if data = done_marker then ([], Break)
            else (let (events, exit) = stream_loop rest in (data # events, exit)))
      else stream_loop rest)"

text \<open>
  What the generator did: the values it yielded, in order, and the exception it ended with,
  if any. Both \<open>except\<close> clauses log and re-raise, so an error leaves unchanged.
\<close>

record outcome =
  yielded :: "pystr list"
  raised :: "http_error option"

definition chat_request :: "pystr LLMClient \<Rightarrow> message list \<Rightarrow> bool \<Rightarrow> pyfloat \<Rightarrow> request" where
  "chat_request self messages stream temperature =
     (let messages_dict = add_system_prompt (map message_to_dict messages)
      in \<lparr>request_method = ustr ''POST'',
          request_url = base_url self @ ustr ''/chat/completions'',
          request_json = \<lparr>payload_model = model self, payload_messages = messages_dict,
                            payload_temperature = temperature, payload_stream = stream\<rparr>\<rparr>)"

definition chat_completion ::
  "pystr LLMClient \<Rightarrow> network \<Rightarrow> message list \<Rightarrow> bool \<Rightarrow> pyfloat \<Rightarrow> outcome \<times> network" where
  "chat_completion self net messages stream temperature =
     (let req = chat_request self messages stream temperature;
          net' = net\<lparr>sent := sent net @ [req]\<rparr>
      in if stream then
           (case backend net req of
              ConnectionFailed \<Rightarrow> (\<lparr>yielded = [], raised = Some TransportError\<rparr>, net')
            | Answered response \<Rightarrow>
                (case raise_for_status response of
                   Some e \<Rightarrow> (\<lparr>yielded = [], raised = Some e\<rparr>, net')
                 | None \<Rightarrow>
                     (let (events, exit) = stream_loop (stream_lines response)
                      in (\<lparr>yielded = events,
                           raised = (if exit = Exhausted \<and> stream_broken response
                                     then Some TransportError else None)\<rparr>, net'))))
         else
           (case backend net req of
              ConnectionFailed \<Rightarrow> (\<lparr>yielded = [], raised = Some TransportError\<rparr>, net')
            | Answered response \<Rightarrow>
                (case raise_for_status response of
                   Some e \<Rightarrow> (\<lparr>yielded = [], raised = Some e\<rparr>, net')
                 | None \<Rightarrow> (\<lparr>yielded = [response_text response], raised = None\<rparr>, net'))))"

definition example_client :: "pystr LLMClient" where
  "example_client = \<lparr>base_url = ustr ''http://localhost:8080/v1'', model = ustr ''m''\<rparr>"

definition example_messages :: "message list" where
  "example_messages = [\<lparr>role = ustr ''user'', content = ustr ''hi''\<rparr>]"

definition example_stream_response :: response where
  "example_stream_response =
     \<lparr>status_code = 200, response_text = [],
      stream_lines = [ustr ''data: a'', ustr '': ping'', [], ustr ''data: b'',
                      ustr ''data: [DONE]'', ustr ''data: c''],
      stream_broken = False\<rparr>"

definition example_network :: "reply \<Rightarrow> network" where
  "example_network answer = \<lparr>backend = (\<lambda>req. answer), sent = []\<rparr>"

section \<open>Document routes (\<open>routes/documents.py\<close>)\<close>

text \<open>
  \<open>str.isspace\<close> for one character and \<open>str.strip()\<close>: the white space of Python's
  Unicode database.
\<close>

definition py_isspace :: "nat \<Rightarrow> bool" where
  "py_isspace c =
     ((9 \<le> c \<and> c \<le> 13) \<or> (28 \<le> c \<and> c \<le> 32) \<or> c = 133 \<or> c = 160 \<or> c = 5760
      \<or> (8192 \<le> c \<and> c \<le> 8202) \<or> c = 8232 \<or> c = 8233 \<or> c = 8239 \<or> c = 8287
      \<or> c = 12288)"

definition py_strip :: "pystr \<Rightarrow> pystr" where
  "py_strip s = rev (dropWhile py_isspace (rev (dropWhile py_isspace s)))"

text \<open>\<open>s.split(".")[-1]\<close>: what follows the last full stop, or all of \<open>s\<close> without one.\<close>

definition split_dot_last :: "pystr \<Rightarrow> pystr" where
  "split_dot_last s = rev (takeWhile (\<lambda>c. c \<noteq> 46) (rev s))"

text \<open>
  \<open>HTTPException(status_code, detail)\<close>, and any other exception \<open>e\<close> with its \<open>str(e)\<close>.
\<close>

datatype http_exception = HTTPException nat pystr

datatype exn = Exception (str_of: pystr)

text \<open>
  The uploaded file (its name, its declared content type, which may be absent, and its
  bytes) and the body of a raw-text upload.
\<close>

record upload_file =
  file_filename :: pystr
  file_content_type :: "pystr option"
  file_bytes :: "nat list"

record text_upload_request =
  req_text :: pystr
  req_filename :: pystr

record document_upload_response =
  success :: bool
  message :: pystr
  document_count :: nat
  chunk_count :: nat

record delete_response =
  delete_success :: bool
  delete_message :: pystr
  chunks_deleted :: int

text \<open>
  The modules \<open>text_processing\<close>, \<open>embeddings\<close> and \<open>vectordb\<close> are collaborators of the
  routes and are taken as parameters: each function returns its value or the exception it
  raised, and the two store operations also return the store they leave behind. The types
  of metadata, of embeddings and of the store are parameters as well.
\<close>

record ('m, 'e, 's) services =
  extract_text_from_file :: "nat list \<Rightarrow> pystr \<Rightarrow> pystr \<Rightarrow> exn + pystr"
  clean_text :: "pystr \<Rightarrow> exn + pystr"
  create_chunks_with_metadata ::
    "pystr \<Rightarrow> pystr \<Rightarrow> pystr \<Rightarrow> exn + (pystr list \<times> pystr list \<times> 'm list)"
  encode_documents :: "pystr list \<Rightarrow> exn + 'e"
  add_documents ::
    "pystr list \<Rightarrow> pystr list \<Rightarrow> 'e \<Rightarrow> 'm list \<Rightarrow> 's \<Rightarrow> exn option \<times> 's"
  delete_by_filename :: "pystr \<Rightarrow> 's \<Rightarrow> (exn + int) \<times> 's"

text \<open>
  The state the routes act on: the vector store, and the calls made so far to the chunker,
  the embedding model and the store's insertion, in order and with their arguments.
\<close>

datatype ('m, 'e) call =
    CreateChunks pystr pystr pystr
  | EncodeDocuments "pystr list"
  | AddDocuments "pystr list" "pystr list" 'e "'m list"

record ('m, 'e, 's) world =
  store :: 's
  calls :: "('m, 'e) call list"

text \<open>\<open>file.content_type or file.filename.split(".")[-1]\<close>\<close>

definition upload_file_type :: "upload_file \<Rightarrow> pystr" where
  "upload_file_type file =
     (case file_content_type file of
        None \<Rightarrow> split_dot_last (file_filename file)
      | Some ct \<Rightarrow> if ct = [] then split_dot_last (file_filename file) else ct)"

definition upload_document ::
  "('m, 'e, 's) services \<Rightarrow> upload_file \<Rightarrow> ('m, 'e, 's) world \<Rightarrow>
   (http_exception + document_upload_response) \<times> ('m, 'e, 's) world" where
  "upload_document svc file w =
     (let file_type = upload_file_type file;
          failed = (\<lambda>e. HTTPException 500 (ustr ''Failed to upload document: '' @ str_of e))
      in case extract_text_from_file svc (file_bytes file) file_type (file_filename file) of
           Inl e \<Rightarrow> (Inl (failed e), w)
         | Inr extracted \<Rightarrow>
        (case clean_text svc extracted of
           Inl e \<Rightarrow> (Inl (failed e), w)
         | Inr cleaned \<Rightarrow>
        if py_strip cleaned = [] then
          (Inl (HTTPException 400
                  (ustr ''Failed to extract text from file or file is empty'')), w)
        else
          (let w1 = w\<lparr>calls := calls w @ [CreateChunks cleaned (file_filename file) file_type]\<rparr>
           in case create_chunks_with_metadata svc cleaned (file_filename file) file_type of
                Inl e \<Rightarrow> (Inl (failed e), w1)
              | Inr (chunk_ids, chunks, metadatas) \<Rightarrow>
             (let w2 = w1\<lparr>calls := calls w1 @ [EncodeDocuments chunks]\<rparr>
              in case encode_documents svc chunks of
                   Inl e \<Rightarrow> (Inl (failed e), w2)
                 | Inr embeddings \<Rightarrow>
                (let (err, store') =
                       add_documents svc chunk_ids chunks embeddings metadatas (store w2);
                     w3 = w2\<lparr>store := store',
                             calls := calls w2
                               @ [AddDocuments chunk_ids chunks embeddings metadatas]\<rparr>
                 in case err of
                      Some e \<Rightarrow> (Inl (failed e), w3)
                    | None \<Rightarrow>
                        (Inr \<lparr>success = True,
                              message = ustr ''Successfully uploaded '' @ file_filename file,
                              document_count = 1,
                              chunk_count = length chunks\<rparr>, w3))))))"

text \<open>The detail of the 400 of \<open>upload_text\<close> ("the text is empty") and its success prefix.\<close>

definition text_is_empty_detail :: pystr where
  "text_is_empty_detail = [12486, 12461, 12473, 12488, 12364, 31354, 12391, 12377]"

definition text_added_prefix :: pystr where
  "text_added_prefix =
     [12486, 12461, 12473, 12488, 12434, 82, 65, 71, 12395, 36861, 21152, 12375, 12414,
      12375, 12383, 58, 32]"

text \<open>
  \<open>filename = request.filename\<close>, then
  \<open>if not filename.endswith(('.md', '.txt')): filename = f"{filename}.md"\<close>
\<close>

definition upload_text_filename :: "pystr \<Rightarrow> pystr" where
  "upload_text_filename filename =
     (if py_endswith_any filename [ustr ''.md'', ustr ''.txt''] then filename
      else filename @ ustr ''.md'')"

definition upload_text ::
  "('m, 'e, 's) services \<Rightarrow> text_upload_request \<Rightarrow> ('m, 'e, 's) world \<Rightarrow>
   (http_exception + document_upload_response) \<times> ('m, 'e, 's) world" where
  "upload_text svc request w =
     (let failed = (\<lambda>e. HTTPException 500 (ustr ''Failed to upload text: '' @ str_of e))
      in case clean_text svc (req_text request) of
           Inl e \<Rightarrow> (Inl (failed e), w)
         | Inr cleaned \<Rightarrow>
        if py_strip cleaned = [] then (Inl (HTTPException 400 text_is_empty_detail), w)
        else
          (let filename = upload_text_filename (req_filename request);
               w1 = w\<lparr>calls := calls w @ [CreateChunks cleaned filename (ustr ''markdown'')]\<rparr>
           in case create_chunks_with_metadata svc cleaned filename (ustr ''markdown'') of
                Inl e \<Rightarrow> (Inl (failed e), w1)
              | Inr (chunk_ids, chunks, metadatas) \<Rightarrow>
             (let w2 = w1\<lparr>calls := calls w1 @ [EncodeDocuments chunks]\<rparr>
              in case encode_documents svc chunks of
                   Inl e \<Rightarrow> (Inl (failed e), w2)
                 | Inr embeddings \<Rightarrow>
                (let (err, store') =
                       add_documents svc chunk_ids chunks embeddings metadatas (store w2);
                     w3 = w2\<lparr>store := store',
                             calls := calls w2
                               @ [AddDocuments chunk_ids chunks embeddings metadatas]\<rparr>
                 in case err of
                      Some e \<Rightarrow> (Inl (failed e), w3)
                    | None \<Rightarrow>
                        (Inr \<lparr>success = True,
                              message = text_added_prefix @ filename,
                              document_count = 1,
                              chunk_count = length chunks\<rparr>, w3)))))"

definition delete_document ::
  "('m, 'e, 's) services \<Rightarrow> pystr \<Rightarrow> ('m, 'e, 's) world \<Rightarrow>
   (http_exception + delete_response) \<times> ('m, 'e, 's) world" where
  "delete_document svc filename w =
     (let (res, store') = delete_by_filename svc filename (store w);
          w' = w\<lparr>store := store'\<rparr>
      in case res of
           Inl e \<Rightarrow>
             (Inl (HTTPException 500 (ustr ''Failed to delete document: '' @ str_of e)), w')
         | Inr deleted_count \<Rightarrow>
             if deleted_count = 0 then
               (Inl (HTTPException 404 (ustr ''Document not found: '' @ filename)), w')
             else
               (Inr \<lparr>delete_success = True,
                     delete_message = ustr ''Successfully deleted '' @ filename,
                     chunks_deleted = deleted_count\<rparr>, w'))"

definition is_not_found :: "http_exception + 'a \<Rightarrow> bool" where
  "is_not_found res = (case res of Inl (HTTPException code detail) \<Rightarrow> code = 404 | Inr _ \<Rightarrow> False)"

text \<open>
  A small in-memory stand-in for the collaborators, to run the routes on concrete inputs:
  the whole text is one chunk, a metadata is the filename, an embedding is a length, and the
  store is the list of the (id, filename) pairs inserted.
\<close>

definition example_services :: "(pystr, nat list, (pystr \<times> pystr) list) services" where
  "example_services =
     \<lparr>extract_text_from_file = (\<lambda>bytes file_type filename. Inr bytes),
      clean_text = (\<lambda>t. Inr t),
      create_chunks_with_metadata =
        (\<lambda>t filename file_type. Inr ([filename @ ustr ''_0''], [t], [filename])),
      encode_documents = (\<lambda>chunks. Inr (map length chunks)),
      add_documents = (\<lambda>ids documents embeddings metadatas s. (None, s @ zip ids metadatas)),
      delete_by_filename =
        (\<lambda>filename s. (Inr (int (length (filter (\<lambda>(i, f). f = filename) s))),
                        filter (\<lambda>(i, f). f \<noteq> filename) s))\<rparr>"

definition example_world :: "(pystr, nat list, (pystr \<times> pystr) list) world" where
  "example_world =
     \<lparr>store = [(ustr ''a.md_0'', ustr ''a.md''), (ustr ''b.md_0'', ustr ''b.md''),
               (ustr ''a.md_1'', ustr ''a.md'')],
      calls = []\<rparr>"

definition example_blank_request :: text_upload_request where
  "example_blank_request = \<lparr>req_text = [32, 10, 9, 12288], req_filename = ustr ''blank''\<rparr>"

definition example_blank_file :: upload_file where
  "example_blank_file =
     \<lparr>file_filename = ustr ''blank.txt'', file_content_type = None, file_bytes = [32, 10]\<rparr>"

definition example_request :: text_upload_request where
  "example_request = \<lparr>req_text = ustr ''hello'', req_filename = ustr ''notes''\<rparr>"

section \<open>Settings (\<open>config.py\<close>) and their update (\<open>main.py\<close>, \<open>update_settings\<close>)\<close>

text \<open>
  The body of the update request is a JSON object, parsed into Python values. A dictionary
  is the list of its items, with distinct keys.
\<close>

datatype json =
    JNull
  | JBool bool
  | JInt int
  | JFloat pyfloat
  | JStr pystr
  | JList "json list"
  | JDict "(pystr \<times> json) list"

text \<open>\<open>sub in s\<close> for two strings.\<close>

fun py_substring :: "pystr \<Rightarrow> pystr \<Rightarrow> bool" where
  "py_substring sub [] = (sub = [])"
| "py_substring sub (c # cs) = (py_startswith (c # cs) sub \<or> py_substring sub cs)"

text \<open>
  \<open>key in container\<close> for a string key: membership among the keys of a dictionary, the
  substring test on a string, equality with an element of a list, and a \<open>TypeError\<close> on
  the values that are not iterable.
\<close>

fun py_contains :: "json \<Rightarrow> pystr \<Rightarrow> py_error + bool" where
  "py_contains (JDict d) key = Inr (map_of d key \<noteq> None)"
| "py_contains (JStr s) key = Inr (py_substring key s)"
| "py_contains (JList xs) key = Inr (List.member xs (JStr key))"
| "py_contains JNull key = Inl TypeError"
| "py_contains (JBool b) key = Inl TypeError"
| "py_contains (JInt i) key = Inl TypeError"
| "py_contains (JFloat f) key = Inl TypeError"

text \<open>
  \<open>container[key]\<close> for a string key: the value in a dictionary (\<open>KeyError\<close> without
  one), and a \<open>TypeError\<close> on everything else.
\<close>

fun py_getitem :: "json \<Rightarrow> pystr \<Rightarrow> py_error + json" where
  "py_getitem (JDict d) key =
     (case map_of d key of None \<Rightarrow> Inl (KeyError key) | Some v \<Rightarrow> Inr v)"
| "py_getitem (JStr s) key = Inl TypeError"
| "py_getitem (JList xs) key = Inl TypeError"
| "py_getitem JNull key = Inl TypeError"
| "py_getitem (JBool b) key = Inl TypeError"
| "py_getitem (JInt i) key = Inl TypeError"
| "py_getitem (JFloat f) key = Inl TypeError"

text \<open>
  The fields of \<open>Settings\<close>. An assignment to a field of the settings object is not
  validated, so the three fields the update assigns can hold any JSON value.
\<close>

record Settings =
  backend_port :: int
  backend_host :: pystr
  lm_studio_base_url :: json
  lm_studio_model :: pystr
  chroma_persist_dir :: pystr
  chroma_collection_name :: pystr
  embedding_model :: pystr
  embedding_device :: pystr
  rag_top_k :: json
  rag_similarity_threshold :: json
  chunk_size :: int
  chunk_overlap :: int
  cors_origins :: pystr

text \<open>The two global objects the update touches.\<close>

record app =
  settings :: Settings
  llm_client :: "json LLMClient"

text \<open>
  The block \<open>if "llm" in update_data: ...\<close>. Each block returns the exception that ended
  it, if any, the state it left, and \<open>updated_fields\<close>.
\<close>

definition update_llm_settings ::
  "json pydict \<Rightarrow> app \<Rightarrow> pystr list \<Rightarrow> py_error option \<times> app \<times> pystr list" where
  "update_llm_settings update_data st updated_fields =
     (case map_of update_data (ustr ''llm'') of
        None \<Rightarrow> (None, st, updated_fields)
      | Some llm \<Rightarrow>
          (case py_contains llm (ustr ''base_url'') of
             Inl e \<Rightarrow> (Some e, st, updated_fields)
           | Inr False \<Rightarrow> (None, st, updated_fields)
           | Inr True \<Rightarrow>
               (case py_getitem llm (ustr ''base_url'') of
                  Inl e \<Rightarrow> (Some e, st, updated_fields)
                | Inr v \<Rightarrow>
                    (let s' = (settings st)\<lparr>lm_studio_base_url := v\<rparr>
                     in (None,
                         st\<lparr>settings := s',
                            llm_client := (llm_client st)\<lparr>base_url := lm_studio_base_url s'\<rparr>\<rparr>,
                         updated_fields @ [ustr ''llm.base_url''])))))"

text \<open>The block \<open>if "rag" in update_data: ...\<close>, with its two assignments in turn.\<close>

definition update_rag_top_k ::
  "json \<Rightarrow> app \<Rightarrow> pystr list \<Rightarrow> py_error option \<times> app \<times> pystr list" where
  "update_rag_top_k rag st updated_fields =
     (case py_contains rag (ustr ''top_k'') of
        Inl e \<Rightarrow> (Some e, st, updated_fields)
      | Inr False \<Rightarrow> (None, st, updated_fields)
      | Inr True \<Rightarrow>
          (case py_getitem rag (ustr ''top_k'') of
             Inl e \<Rightarrow> (Some e, st, updated_fields)
           | Inr v \<Rightarrow>
               (None, st\<lparr>settings := (settings st)\<lparr>rag_top_k := v\<rparr>\<rparr>,
                updated_fields @ [ustr ''rag.top_k''])))"

definition update_rag_similarity_threshold ::
  "json \<Rightarrow> app \<Rightarrow> pystr list \<Rightarrow> py_error option \<times> app \<times> pystr list" where
  "update_rag_similarity_threshold rag st updated_fields =
     (case py_contains rag (ustr ''similarity_threshold'') of
        Inl e \<Rightarrow> (Some e, st, updated_fields)
      | Inr False \<Rightarrow> (None, st, updated_fields)
      | Inr True \<Rightarrow>
          (case py_getitem rag (ustr ''similarity_threshold'') of
             Inl e \<Rightarrow> (Some e, st, updated_fields)
           | Inr v \<Rightarrow>
               (None, st\<lparr>settings := (settings st)\<lparr>rag_similarity_threshold := v\<rparr>\<rparr>,
                updated_fields @ [ustr ''rag.similarity_threshold''])))"

definition update_rag_settings ::
  "json pydict \<Rightarrow> app \<Rightarrow> pystr list \<Rightarrow> py_error option \<times> app \<times> pystr list" where
  "update_rag_settings update_data st updated_fields =
     (case map_of update_data (ustr ''rag'') of
        None \<Rightarrow> (None, st, updated_fields)
      | Some rag \<Rightarrow>
          (case update_rag_top_k rag st updated_fields of
             (Some e, st1, fields1) \<Rightarrow> (Some e, st1, fields1)
           | (None, st1, fields1) \<Rightarrow> update_rag_similarity_threshold rag st1 fields1))"

text \<open>
  \<open>update_settings\<close>: the two blocks in turn. An exception is caught and answered with
  status 500; what was assigned before it stays assigned. Otherwise the answer lists the
  updated fields.
\<close>

definition update_settings ::
  "json pydict \<Rightarrow> app \<Rightarrow> (py_error + pystr list) \<times> app" where
  "update_settings update_data st =
     (case update_llm_settings update_data st [] of
        (Some e, st1, fields1) \<Rightarrow> (Inl e, st1)
      | (None, st1, fields1) \<Rightarrow>
          (case update_rag_settings update_data st1 fields1 of
             (Some e, st2, fields2) \<Rightarrow> (Inl e, st2)
           | (None, st2, fields2) \<Rightarrow> (Inr fields2, st2)))"

text \<open>The settings with the three fields the update may assign blanked out.\<close>

definition fixed_part :: "Settings \<Rightarrow> Settings" where
  "fixed_part s = s\<lparr>lm_studio_base_url := JNull, rag_top_k := JNull,
                     rag_similarity_threshold := JNull\<rparr>"

text \<open>The defaults of \<open>config.py\<close>, and a client initialised from them.\<close>

definition default_settings :: Settings where
  "default_settings =
     \<lparr>backend_port = 8000,
      backend_host = ustr ''0.0.0.0'',
      lm_studio_base_url = JStr (ustr ''http://localhost:8080/v1''),
      lm_studio_model = ustr ''/Users/matsbaccano/Library/Caches/llama.cpp/bartowski_google_gemma-3n-E4B-it-GGUF_google_gemma-3n-E4B-it-Q6_K.gguf'',
      chroma_persist_dir = ustr ''../chroma_data'',
      chroma_collection_name = ustr ''documents'',
      embedding_model = ustr ''intfloat/multilingual-e5-base'',
      embedding_device = ustr ''cpu'',
      rag_top_k = JInt 3,
      rag_similarity_threshold = JFloat 0x3FE0000000000000,
      chunk_size = 1000,
      chunk_overlap = 200,
      cors_origins = ustr ''http://localhost:3000,https://localhost:3000,http://localhost:3001,https://localhost:3001''\<rparr>"

definition default_app :: app where
  "default_app =
     \<lparr>settings = default_settings,
      llm_client = \<lparr>base_url = lm_studio_base_url default_settings,
                    model = lm_studio_model default_settings\<rparr>\<rparr>"

definition example_update :: "json pydict" where
  "example_update =
     [(ustr ''llm'', JDict [(ustr ''base_url'', JStr (ustr ''http://10.0.0.2:1234/v1'')),
                            (ustr ''model'', JStr (ustr ''other''))]),
      (ustr ''rag'', JDict [(ustr ''top_k'', JInt 5), (ustr ''chunk_size'', JInt 10)]),
      (ustr ''backend'', JDict [(ustr ''port'', JInt 1)]),
      (ustr ''cors'', JDict [(ustr ''origins'', JStr (ustr ''*''))])]"

definition example_bad_update :: "json pydict" where
  "example_bad_update =
     [(ustr ''llm'', JDict [(ustr ''base_url'', JInt 7)]), (ustr ''rag'', JInt 3)]"

section \<open>Properties of prompt assembly\<close>

lemma build_context_parts_all:
  "list_all has_content items \<Longrightarrow>
   build_context_parts i items acc =
     Inr (acc @ map (\<lambda>(k, item). context_part k (item_filename item) (the (item_content item)))
                  (enumerate i items))"
proof (induction items arbitrary: i acc)
  case Nil
  then show ?case by simp
next
  case (Cons item rest)
  from Cons.prems have rest: "list_all has_content rest" and "has_content item"
    by simp_all
  then obtain c where c: "item_content item = Some c"
    by (auto simp: has_content_def)
  show ?case
    using Cons.IH [OF rest, of "Suc i"] c by simp
qed

lemma reference_entries_enumerate:
  "map (reference_entry items) [0..<length items] =
   map (\<lambda>(k, item). context_part k (item_filename item) (the (item_content item)))
       (enumerate 1 items)"
  by (rule nth_equalityI) (simp_all add: reference_entry_def nth_enumerate_eq)

text \<open>
  C4: for every question, \<open>create_rag_prompt\<close> applied to an empty context returns the
  question unchanged.
\<close>

theorem create_rag_prompt_empty_context:
  "create_rag_prompt [] question = Inr question"
  by (simp add: create_rag_prompt_def)

text \<open>
  C5: for every question and every non-empty context whose items carry their text, the
  result of \<open>create_rag_prompt\<close> is the question, then the delimiter line, then the
  entries of the context in their given order, each labelled with its 1-based position and
  its filename and followed by its text. The result is a function of the two arguments alone.
\<close>

theorem create_rag_prompt_reference_section:
  assumes "context \<noteq> []" and "list_all has_content context"
  shows "create_rag_prompt context question =
           Inr (question @ [10, 10] @ reference_word @ ustr '':'' @ [10]
                  @ reference_section context)"
proof -
  have "build_context_parts 1 context [] =
          Inr (map (reference_entry context) [0..<length context])"
    using build_context_parts_all [OF assms(2), of 1 "[]"]
    by (simp add: reference_entries_enumerate)
  with assms(1) show ?thesis
    by (simp add: create_rag_prompt_def reference_section_def)
qed

theorem create_rag_prompt_empty_context_witness:
  "create_rag_prompt [] (ustr ''What is spinach?'') = Inr (ustr ''What is spinach?'')"
  by (rule create_rag_prompt_empty_context)

lemma str_nat_digit: "n < 10 \<Longrightarrow> str_nat n = [48 + n]"
  by (simp add: str_nat.simps)

theorem create_rag_prompt_reference_section_witness:
  "example_context \<noteq> [] \<and> list_all has_content example_context
   \<and> create_rag_prompt example_context (ustr ''q?'')
       = Inr (ustr ''q?'' @ [10, 10] @ [21442, 32771, 36039, 26009] @ ustr '':'' @ [10]
              @ ustr ''['' @ [21442, 32771, 36039, 26009] @ ustr '' 1: a.md]'' @ [10]
              @ ustr ''alpha''
              @ [10, 10]
              @ ustr ''['' @ [21442, 32771, 36039, 26009] @ ustr '' 2: '' @ [19981, 26126]
              @ ustr '']'' @ [10] @ ustr ''beta'')"
proof -
  have ne: "example_context \<noteq> []"
    by (simp add: example_context_def)
  have hc: "list_all has_content example_context"
    by (simp add: example_context_def has_content_def)
  have e0: "reference_entry example_context 0 =
      ustr ''['' @ [21442, 32771, 36039, 26009] @ ustr '' 1: a.md]'' @ [10] @ ustr ''alpha''"
    by (simp add: example_context_def reference_entry_def context_part_def item_filename_def
          reference_word_def str_nat_digit ustr_def)
  have e1: "reference_entry example_context (Suc 0) =
      ustr ''['' @ [21442, 32771, 36039, 26009] @ ustr '' 2: '' @ [19981, 26126]
        @ ustr '']'' @ [10] @ ustr ''beta''"
    by (simp add: example_context_def reference_entry_def context_part_def item_filename_def
          reference_word_def unknown_filename_def str_nat_digit ustr_def)
  have up: "[0..<length example_context] = [0, Suc 0]"
    by (simp add: example_context_def upt_rec)
  have sec: "reference_section example_context =
      reference_entry example_context 0 @ [10, 10] @ reference_entry example_context (Suc 0)"
    by (simp add: reference_section_def up)
  show ?thesis
    using create_rag_prompt_reference_section [OF ne hc, of "ustr ''q?''"] ne hc
    by (simp add: sec e0 e1 reference_word_def)
qed

text \<open>
  An item read without its \<open>content\<close> entry ends the assembly with \<open>KeyError\<close>; the
  items of a retrieved context always carry their text.
\<close>

lemma create_rag_prompt_missing_content:
  "create_rag_prompt [\<lparr>item_content = None, item_metadata = md\<rparr>] question =
     Inl (KeyError (ustr ''content''))"
  by (simp add: create_rag_prompt_def)

section \<open>Properties of the completion client\<close>

lemma length_data_prefix: "length data_prefix = 6"
  by (simp add: data_prefix_def ustr_def)

lemma data_line_payload:
  "py_startswith l data_prefix \<Longrightarrow> data_prefix @ drop 6 l = l"
  using append_take_drop_id [of 6 l] by (simp add: py_startswith_def length_data_prefix)

lemma data_line_done:
  "py_startswith l data_prefix \<Longrightarrow> (drop 6 l = done_marker) = (l = data_prefix @ done_marker)"
  using data_line_payload [of l] by (auto simp: length_data_prefix)

lemma done_line_is_data: "py_startswith (data_prefix @ done_marker) data_prefix"
  by (simp add: py_startswith_def)

text \<open>
  The events of the loop: the lines before the first terminal line, those with the data
  prefix only, each without its first six characters.
\<close>

lemma stream_loop_events:
  "fst (stream_loop ls) =
     map (drop 6) (filter (\<lambda>l. py_startswith l data_prefix)
                     (takeWhile (\<lambda>l. l \<noteq> data_prefix @ done_marker) ls))"
proof (induction ls)
  case Nil
  then show ?case by simp
next
  case (Cons l ls)
  show ?case
  proof (cases "py_startswith l data_prefix")
    case True
    then show ?thesis
      using Cons.IH data_line_done [OF True]
      by (simp add: Let_def case_prod_beta)
  next
    case False
    then have "l \<noteq> data_prefix @ done_marker"
      using done_line_is_data by auto
    with False show ?thesis
      using Cons.IH by simp
  qed
qed

lemma stream_loop_filter:
  "stream_loop (filter (\<lambda>l. py_startswith l data_prefix) ls) = stream_loop ls"
  by (induction ls) (simp_all add: Let_def)

lemma example_stream_loop:
  "stream_loop (stream_lines example_stream_response) = ([ustr ''a'', ustr ''b''], Break)"
  by (simp add: example_stream_response_def data_prefix_def done_marker_def py_startswith_def
        ustr_def)

text \<open>
  C1: in streaming mode, when the backend answers with a success status, the events yielded
  are the payloads of the data-prefixed lines that arrive before the first line whose payload
  is the terminal marker, in arrival order; each payload is its line without the data prefix.
\<close>

theorem chat_completion_stream_relay:
  assumes "backend net (chat_request self messages True temperature) = Answered r"
      and "200 \<le> status_code r" and "status_code r \<le> 299"
  shows "yielded (fst (chat_completion self net messages True temperature)) =
           map (drop 6) (filter (\<lambda>l. py_startswith l data_prefix)
                           (takeWhile (\<lambda>l. l \<noteq> data_prefix @ done_marker) (stream_lines r)))
         \<and> (\<forall>l \<in> set (stream_lines r).
               py_startswith l data_prefix \<longrightarrow> data_prefix @ drop 6 l = l)"
  using assms stream_loop_events [of "stream_lines r"]
  by (simp add: chat_completion_def Let_def raise_for_status_def case_prod_beta
        data_line_payload)

theorem chat_completion_stream_relay_witness:
  "backend (example_network (Answered example_stream_response))
       (chat_request example_client example_messages True 0) = Answered example_stream_response
   \<and> 200 \<le> status_code example_stream_response \<and> status_code example_stream_response \<le> 299
   \<and> yielded (fst (chat_completion example_client
                      (example_network (Answered example_stream_response))
                      example_messages True 0)) = [ustr ''a'', ustr ''b'']"
proof -
  have a: "backend (example_network (Answered example_stream_response))
       (chat_request example_client example_messages True 0) = Answered example_stream_response"
    by (simp add: example_network_def)
  have b: "200 \<le> status_code example_stream_response"
    and c: "status_code example_stream_response \<le> 299"
    by (simp_all add: example_stream_response_def)
  have d: "map (drop 6) (filter (\<lambda>l. py_startswith l data_prefix)
             (takeWhile (\<lambda>l. l \<noteq> data_prefix @ done_marker)
                (stream_lines example_stream_response))) = [ustr ''a'', ustr ''b'']"
    by (simp add: example_stream_response_def data_prefix_def done_marker_def
          py_startswith_def ustr_def)
  show ?thesis
    using chat_completion_stream_relay [OF a b c] a b c by (simp add: d)
qed

text \<open>
  C2, as stated, fails: the example stream holds the line \<open>: ping\<close>, which has no data
  prefix, and the request ends without an error, having yielded the events around it.
\<close>

theorem chat_completion_unframed_line_counterexample:
  "ustr '': ping'' \<in> set (stream_lines example_stream_response)
   \<and> \<not> py_startswith (ustr '': ping'') data_prefix
   \<and> fst (chat_completion example_client (example_network (Answered example_stream_response))
            example_messages True 0) =
       \<lparr>yielded = [ustr ''a'', ustr ''b''], raised = None\<rparr>"
  by (simp add: chat_completion_def Let_def example_stream_loop example_network_def
        raise_for_status_def)
     (simp add: example_stream_response_def py_startswith_def data_prefix_def ustr_def)

text \<open>
  C2, amended: in streaming mode a line without the data prefix is skipped. When the backend
  answers with a success status, the outcome of the request is the one of the data-prefixed
  lines alone: the other lines yield nothing and raise nothing, and unless the transport
  breaks the request ends without an error.
\<close>

theorem chat_completion_skips_unframed_lines:
  assumes "backend net (chat_request self messages True temperature) = Answered r"
      and "200 \<le> status_code r" and "status_code r \<le> 299"
  shows "fst (chat_completion self net messages True temperature) =
           \<lparr>yielded = fst (stream_loop (filter (\<lambda>l. py_startswith l data_prefix)
                                          (stream_lines r))),
            raised = (if snd (stream_loop (filter (\<lambda>l. py_startswith l data_prefix)
                                             (stream_lines r))) = Exhausted \<and> stream_broken r
                      then Some TransportError else None)\<rparr>
         \<and> (\<not> stream_broken r \<longrightarrow>
              raised (fst (chat_completion self net messages True temperature)) = None)"
  using assms
  by (simp add: chat_completion_def Let_def raise_for_status_def case_prod_beta
        stream_loop_filter)

theorem chat_completion_skips_unframed_lines_witness:
  "backend (example_network (Answered example_stream_response))
       (chat_request example_client example_messages True 0) = Answered example_stream_response
   \<and> 200 \<le> status_code example_stream_response \<and> status_code example_stream_response \<le> 299
   \<and> \<not> stream_broken example_stream_response
   \<and> raised (fst (chat_completion example_client
                     (example_network (Answered example_stream_response))
                     example_messages True 0)) = None"
proof -
  have a: "backend (example_network (Answered example_stream_response))
       (chat_request example_client example_messages True 0) = Answered example_stream_response"
    by (simp add: example_network_def)
  have b: "200 \<le> status_code example_stream_response"
    and c: "status_code example_stream_response \<le> 299"
    and d: "\<not> stream_broken example_stream_response"
    by (simp_all add: example_stream_response_def)
  show ?thesis
    using chat_completion_skips_unframed_lines [OF a b c] a b c d by simp
qed

text \<open>
  C3: for every conversation, in either mode, the one request sent to the backend carries
  the conversation with the default system message put in front when the conversation is
  empty or its first message's role is not \<open>system\<close>, and the conversation as it is when
  its first message's role is \<open>system\<close>.
\<close>

theorem chat_completion_system_prompt:
  "sent (snd (chat_completion self net messages stream temperature)) =
     sent net @ [chat_request self messages stream temperature]
   \<and> payload_messages (request_json (chat_request self messages stream temperature)) =
       (case messages of
          [] \<Rightarrow> [default_system_message]
        | first # _ \<Rightarrow>
            if role first = ustr ''system'' then map message_to_dict messages
            else default_system_message # map message_to_dict messages)"
proof
  show "sent (snd (chat_completion self net messages stream temperature)) =
     sent net @ [chat_request self messages stream temperature]"
    by (simp add: chat_completion_def Let_def case_prod_beta
          split: reply.splits option.splits)
next
  show "payload_messages (request_json (chat_request self messages stream temperature)) =
       (case messages of
          [] \<Rightarrow> [default_system_message]
        | first # _ \<Rightarrow>
            if role first = ustr ''system'' then map message_to_dict messages
            else default_system_message # map message_to_dict messages)"
    by (cases messages)
       (simp_all add: chat_request_def add_system_prompt_def message_to_dict_def)
qed

theorem chat_completion_system_prompt_witness:
  "map payload_messages (map request_json
     (sent (snd (chat_completion example_client (example_network ConnectionFailed)
                   example_messages True 0)))) =
     [[default_system_message,
       [(ustr ''role'', ustr ''user''), (ustr ''content'', ustr ''hi'')]]]
   \<and> map payload_messages (map request_json
     (sent (snd (chat_completion example_client (example_network ConnectionFailed)
                   (\<lparr>role = ustr ''system'', content = ustr ''be brief''\<rparr> # example_messages)
                   False 0)))) =
     [[[(ustr ''role'', ustr ''system''), (ustr ''content'', ustr ''be brief'')],
       [(ustr ''role'', ustr ''user''), (ustr ''content'', ustr ''hi'')]]]"
  using chat_completion_system_prompt
          [of example_client "example_network ConnectionFailed" example_messages True 0]
        chat_completion_system_prompt
          [of example_client "example_network ConnectionFailed"
              "\<lparr>role = ustr ''system'', content = ustr ''be brief''\<rparr> # example_messages"
              False 0]
  by (simp add: example_network_def example_messages_def message_to_dict_def ustr_def)

text \<open>
  C6: in non-streaming mode \<open>chat_completion\<close> sends exactly one request; it yields the
  text of the response as one value when the status is 200 to 299, and ends with an error
  and no value when the transport fails or the status is anything else.
\<close>

theorem chat_completion_non_streaming:
  "chat_completion self net messages False temperature =
     ((case backend net (chat_request self messages False temperature) of
         ConnectionFailed \<Rightarrow> \<lparr>yielded = [], raised = Some TransportError\<rparr>
       | Answered r \<Rightarrow>
           if 200 \<le> status_code r \<and> status_code r \<le> 299
           then \<lparr>yielded = [response_text r], raised = None\<rparr>
           else \<lparr>yielded = [], raised = Some (HTTPStatusError (status_code r))\<rparr>),
      net\<lparr>sent := sent net @ [chat_request self messages False temperature]\<rparr>)"
  by (simp add: chat_completion_def Let_def raise_for_status_def split: reply.splits)

theorem chat_completion_non_streaming_witness:
  "fst (chat_completion example_client (example_network ConnectionFailed)
          example_messages False 0) = \<lparr>yielded = [], raised = Some TransportError\<rparr>
   \<and> fst (chat_completion example_client
          (example_network (Answered (example_stream_response\<lparr>status_code := 503\<rparr>)))
          example_messages False 0) = \<lparr>yielded = [], raised = Some (HTTPStatusError 503)\<rparr>
   \<and> fst (chat_completion example_client
          (example_network (Answered (example_stream_response\<lparr>status_code := 301\<rparr>)))
          example_messages False 0) = \<lparr>yielded = [], raised = Some (HTTPStatusError 301)\<rparr>
   \<and> chat_completion example_client
          (example_network (Answered (example_stream_response\<lparr>response_text := ustr ''ok''\<rparr>)))
          example_messages False 0 =
       (\<lparr>yielded = [ustr ''ok''], raised = None\<rparr>,
        \<lparr>backend = (\<lambda>req. Answered (example_stream_response\<lparr>response_text := ustr ''ok''\<rparr>)),
         sent = [chat_request example_client example_messages False 0]\<rparr>)"
  using chat_completion_non_streaming
          [of example_client "example_network ConnectionFailed" example_messages 0]
        chat_completion_non_streaming
          [of example_client
              "example_network (Answered (example_stream_response\<lparr>status_code := 503\<rparr>))"
              example_messages 0]
        chat_completion_non_streaming
          [of example_client
              "example_network (Answered (example_stream_response\<lparr>status_code := 301\<rparr>))"
              example_messages 0]
        chat_completion_non_streaming
          [of example_client
              "example_network (Answered (example_stream_response\<lparr>response_text := ustr ''ok''\<rparr>))"
              example_messages 0]
  by (simp add: example_network_def example_stream_response_def)

section \<open>Properties of the document routes\<close>

lemma dropWhile_all: "(\<forall>x \<in> set (dropWhile P xs). P x) = (\<forall>x \<in> set xs. P x)"
  by (induction xs) auto

lemma py_strip_empty: "(py_strip s = []) = list_all py_isspace s"
  by (simp add: py_strip_def dropWhile_eq_Nil_conv dropWhile_all list_all_iff)

text \<open>
  C8: when the cleaned text of a raw-text upload, or the extracted and cleaned text of a file
  upload, is empty or white space only, the operation fails with the 400 error for empty
  input and leaves the state as it was: the store is untouched and no call to the chunker,
  the embedding model or the store's insertion has been made.
\<close>

theorem empty_text_rejected_before_ingestion:
  "(clean_text svc (req_text request) = Inr cleaned \<and> list_all py_isspace cleaned \<longrightarrow>
      upload_text svc request w = (Inl (HTTPException 400 text_is_empty_detail), w))
   \<and> (extract_text_from_file svc (file_bytes file) (upload_file_type file) (file_filename file)
         = Inr extracted
       \<and> clean_text svc extracted = Inr cleaned \<and> list_all py_isspace cleaned \<longrightarrow>
      upload_document svc file w =
        (Inl (HTTPException 400
                (ustr ''Failed to extract text from file or file is empty'')), w))"
  by (simp add: upload_text_def upload_document_def Let_def py_strip_empty)

text \<open>
  C7: for every filename, when the store's delete-by-filename reports a positive count the
  operation returns that count, and the operation fails with the 404 error exactly when the
  reported count is zero.
\<close>

theorem delete_document_count_or_not_found:
  "(\<forall>n s'. delete_by_filename svc filename (store w) = (Inr n, s') \<and> 0 < n \<longrightarrow>
       delete_document svc filename w =
         (Inr \<lparr>delete_success = True,
               delete_message = ustr ''Successfully deleted '' @ filename,
               chunks_deleted = n\<rparr>, w\<lparr>store := s'\<rparr>))
   \<and> (is_not_found (fst (delete_document svc filename w)) =
        (fst (delete_by_filename svc filename (store w)) = Inr 0))"
  by (auto simp: delete_document_def Let_def is_not_found_def case_prod_beta
        split: sum.splits)

text \<open>
  C10: for every raw-text upload with text to ingest, the chunks are created under, and
  what the chunker returned for it is stored under, the filename of the request when that
  ends in \<open>.md\<close> or \<open>.txt\<close>, and the filename with \<open>.md\<close> appended otherwise, which then
  differs from the filename the caller gave.
\<close>

theorem upload_text_stored_filename:
  assumes "clean_text svc (req_text request) = Inr cleaned"
      and "\<not> list_all py_isspace cleaned"
      and "create_chunks_with_metadata svc cleaned (upload_text_filename (req_filename request))
             (ustr ''markdown'') = Inr (chunk_ids, chunks, metadatas)"
      and "encode_documents svc chunks = Inr embeddings"
  shows "calls (snd (upload_text svc request w)) =
           calls w @ [CreateChunks cleaned (upload_text_filename (req_filename request))
                        (ustr ''markdown''),
                      EncodeDocuments chunks,
                      AddDocuments chunk_ids chunks embeddings metadatas]
         \<and> store (snd (upload_text svc request w)) =
             snd (add_documents svc chunk_ids chunks embeddings metadatas (store w))
         \<and> (if py_endswith_any (req_filename request) [ustr ''.md'', ustr ''.txt'']
            then upload_text_filename (req_filename request) = req_filename request
            else upload_text_filename (req_filename request) = req_filename request @ ustr ''.md''
                 \<and> upload_text_filename (req_filename request) \<noteq> req_filename request)"
  using assms
  by (simp add: upload_text_def Let_def py_strip_empty case_prod_beta upload_text_filename_def
        ustr_def split: option.splits)

theorem empty_text_rejected_before_ingestion_witness:
  "clean_text example_services (req_text example_blank_request) = Inr [32, 10, 9, 12288]
   \<and> list_all py_isspace [32, 10, 9, 12288]
   \<and> upload_text example_services example_blank_request example_world =
       (Inl (HTTPException 400 text_is_empty_detail), example_world)
   \<and> extract_text_from_file example_services (file_bytes example_blank_file)
        (upload_file_type example_blank_file) (file_filename example_blank_file) = Inr [32, 10]
   \<and> clean_text example_services [32, 10] = Inr [32, 10]
   \<and> list_all py_isspace [32, 10]
   \<and> upload_document example_services example_blank_file example_world =
        (Inl (HTTPException 400
                (ustr ''Failed to extract text from file or file is empty'')), example_world)"
proof -
  have a: "clean_text example_services (req_text example_blank_request) = Inr [32, 10, 9, 12288]"
    by (simp add: example_services_def example_blank_request_def)
  have b: "list_all py_isspace [32, 10, 9, 12288]"
    by (simp add: py_isspace_def)
  have c: "extract_text_from_file example_services (file_bytes example_blank_file)
        (upload_file_type example_blank_file) (file_filename example_blank_file) = Inr [32, 10]"
    by (simp add: example_services_def example_blank_file_def)
  have d: "clean_text example_services [32, 10] = Inr [32, 10]"
    by (simp add: example_services_def)
  have e: "list_all py_isspace [32, 10]"
    by (simp add: py_isspace_def)
  show ?thesis
    using empty_text_rejected_before_ingestion [of example_services example_blank_request "[32, 10, 9, 12288]" example_world
                 example_blank_file "[32, 10]"]
          empty_text_rejected_before_ingestion [of example_services example_blank_request "[32, 10]" example_world
                 example_blank_file "[32, 10]"]
          a b c d e
    by simp
qed

theorem delete_document_count_or_not_found_witness:
  "delete_by_filename example_services (ustr ''a.md'') (store example_world) =
     (Inr 2, [(ustr ''b.md_0'', ustr ''b.md'')])
   \<and> fst (delete_document example_services (ustr ''a.md'') example_world) =
       Inr \<lparr>delete_success = True,
            delete_message = ustr ''Successfully deleted '' @ ustr ''a.md'',
            chunks_deleted = 2\<rparr>
   \<and> fst (delete_by_filename example_services (ustr ''c.md'') (store example_world)) = Inr 0
   \<and> is_not_found (fst (delete_document example_services (ustr ''c.md'') example_world))"
proof -
  have a: "delete_by_filename example_services (ustr ''a.md'') (store example_world) =
     (Inr 2, [(ustr ''b.md_0'', ustr ''b.md'')])"
    by (simp add: example_services_def example_world_def ustr_def)
  have b: "fst (delete_by_filename example_services (ustr ''c.md'') (store example_world)) = Inr 0"
    by (simp add: example_services_def example_world_def ustr_def)
  show ?thesis
    using delete_document_count_or_not_found [of example_services "ustr ''a.md''" example_world]
          delete_document_count_or_not_found [of example_services "ustr ''c.md''" example_world] a b
    by simp
qed

theorem upload_text_stored_filename_witness:
  "clean_text example_services (req_text example_request) = Inr (ustr ''hello'')
   \<and> \<not> list_all py_isspace (ustr ''hello'')
   \<and> create_chunks_with_metadata example_services (ustr ''hello'')
        (upload_text_filename (req_filename example_request)) (ustr ''markdown'') =
       Inr ([ustr ''notes.md_0''], [ustr ''hello''], [ustr ''notes.md''])
   \<and> encode_documents example_services [ustr ''hello''] = Inr [5]
   \<and> \<not> py_endswith_any (req_filename example_request) [ustr ''.md'', ustr ''.txt'']
   \<and> calls (snd (upload_text example_services example_request example_world)) =
       [CreateChunks (ustr ''hello'') (ustr ''notes.md'') (ustr ''markdown''),
        EncodeDocuments [ustr ''hello''],
        AddDocuments [ustr ''notes.md_0''] [ustr ''hello''] [5] [ustr ''notes.md'']]
   \<and> store (snd (upload_text example_services example_request example_world)) =
       store example_world @ [(ustr ''notes.md_0'', ustr ''notes.md'')]"
proof -
  have fn: "upload_text_filename (req_filename example_request) = ustr ''notes.md''"
    by (simp add: upload_text_filename_def example_request_def py_endswith_any_def
          py_endswith_def ustr_def)
  have ne: "\<not> py_endswith_any (req_filename example_request) [ustr ''.md'', ustr ''.txt'']"
    by (simp add: example_request_def py_endswith_any_def py_endswith_def ustr_def)
  have a: "clean_text example_services (req_text example_request) = Inr (ustr ''hello'')"
    by (simp add: example_services_def example_request_def)
  have b: "\<not> list_all py_isspace (ustr ''hello'')"
    by (simp add: py_isspace_def ustr_def)
  have c: "create_chunks_with_metadata example_services (ustr ''hello'')
        (upload_text_filename (req_filename example_request)) (ustr ''markdown'') =
       Inr ([ustr ''notes.md_0''], [ustr ''hello''], [ustr ''notes.md''])"
    by (simp add: fn) (simp add: example_services_def ustr_def)
  have d: "encode_documents example_services [ustr ''hello''] = Inr [5]"
    by (simp add: example_services_def ustr_def)
  have e: "snd (add_documents example_services [ustr ''notes.md_0''] [ustr ''hello''] [5]
                  [ustr ''notes.md''] (store example_world)) =
           store example_world @ [(ustr ''notes.md_0'', ustr ''notes.md'')]"
    by (simp add: example_services_def)
  have f: "calls example_world = []"
    by (simp add: example_world_def)
  show ?thesis
    using upload_text_stored_filename [OF a b c d, of example_world] a b c d ne
    by (simp add: fn e f)
qed

section \<open>Properties of the settings update\<close>

lemma update_llm_settings_frame:
  "update_llm_settings update_data st fs = (err, st', fs') \<Longrightarrow>
   fixed_part (settings st') = fixed_part (settings st)"
  by (auto simp: update_llm_settings_def fixed_part_def Let_def
        split: option.splits sum.splits bool.splits)

lemma update_rag_top_k_frame:
  "update_rag_top_k rag st fs = (err, st', fs') \<Longrightarrow>
   fixed_part (settings st') = fixed_part (settings st)"
  by (auto simp: update_rag_top_k_def fixed_part_def
        split: option.splits sum.splits bool.splits)

lemma update_rag_similarity_threshold_frame:
  "update_rag_similarity_threshold rag st fs = (err, st', fs') \<Longrightarrow>
   fixed_part (settings st') = fixed_part (settings st)"
  by (auto simp: update_rag_similarity_threshold_def fixed_part_def
        split: option.splits sum.splits bool.splits)

lemma update_rag_settings_frame:
  assumes "update_rag_settings update_data st fs = (err, st', fs')"
  shows "fixed_part (settings st') = fixed_part (settings st)"
proof (cases "map_of update_data (ustr ''rag'')")
  case None
  with assms show ?thesis by (simp add: update_rag_settings_def)
next
  case (Some rag)
  obtain e1 st1 f1 where r1: "update_rag_top_k rag st fs = (e1, st1, f1)"
    by (cases "update_rag_top_k rag st fs") auto
  have s1: "fixed_part (settings st1) = fixed_part (settings st)"
    by (rule update_rag_top_k_frame [OF r1])
  show ?thesis
  proof (cases e1)
    case None
    with assms Some r1
    have "update_rag_similarity_threshold rag st1 f1 = (err, st', fs')"
      by (simp add: update_rag_settings_def)
    from update_rag_similarity_threshold_frame [OF this] s1 show ?thesis by simp
  next
    case (Some e)
    with assms \<open>map_of update_data (ustr ''rag'') = Some rag\<close> r1 have "st' = st1"
      by (simp add: update_rag_settings_def)
    with s1 show ?thesis by simp
  qed
qed

lemma update_settings_frame:
  "fixed_part (settings (snd (update_settings update_data st))) = fixed_part (settings st)"
proof -
  obtain e1 st1 f1 where r1: "update_llm_settings update_data st [] = (e1, st1, f1)"
    by (cases "update_llm_settings update_data st []") auto
  have s1: "fixed_part (settings st1) = fixed_part (settings st)"
    by (rule update_llm_settings_frame [OF r1])
  show ?thesis
  proof (cases e1)
    case (Some e)
    with r1 s1 show ?thesis by (simp add: update_settings_def)
  next
    case None
    obtain e2 st2 f2 where r2: "update_rag_settings update_data st1 f1 = (e2, st2, f2)"
      by (cases "update_rag_settings update_data st1 f1") auto
    have s2: "fixed_part (settings st2) = fixed_part (settings st1)"
      by (rule update_rag_settings_frame [OF r2])
    from None r1 r2 have "snd (update_settings update_data st) = st2"
      by (cases e2) (simp_all add: update_settings_def)
    with s1 s2 show ?thesis by simp
  qed
qed

lemma fixed_part_fields:
  assumes "fixed_part s' = fixed_part s"
  shows "backend_port s' = backend_port s \<and> backend_host s' = backend_host s
     \<and> lm_studio_model s' = lm_studio_model s
     \<and> chroma_persist_dir s' = chroma_persist_dir s
     \<and> chroma_collection_name s' = chroma_collection_name s
     \<and> embedding_model s' = embedding_model s \<and> embedding_device s' = embedding_device s
     \<and> chunk_size s' = chunk_size s \<and> chunk_overlap s' = chunk_overlap s
     \<and> cors_origins s' = cors_origins s"
proof -
  have "backend_port (fixed_part s') = backend_port (fixed_part s)"
    "backend_host (fixed_part s') = backend_host (fixed_part s)"
    "lm_studio_model (fixed_part s') = lm_studio_model (fixed_part s)"
    "chroma_persist_dir (fixed_part s') = chroma_persist_dir (fixed_part s)"
    "chroma_collection_name (fixed_part s') = chroma_collection_name (fixed_part s)"
    "embedding_model (fixed_part s') = embedding_model (fixed_part s)"
    "embedding_device (fixed_part s') = embedding_device (fixed_part s)"
    "chunk_size (fixed_part s') = chunk_size (fixed_part s)"
    "chunk_overlap (fixed_part s') = chunk_overlap (fixed_part s)"
    "cors_origins (fixed_part s') = cors_origins (fixed_part s)"
    using assms by simp_all
  then show ?thesis by (simp add: fixed_part_def)
qed

text \<open>
  C9: for every body of the update request and every state, the settings after
  \<open>update_settings\<close> agree with the settings before it on every field other than the
  completion endpoint URL, the RAG top-K and the RAG similarity threshold, whether the call
  succeeds or ends in an error.
\<close>

theorem update_settings_changes_only_mutable_fields:
  "backend_port (settings (snd (update_settings update_data st))) = backend_port (settings st)
   \<and> backend_host (settings (snd (update_settings update_data st))) = backend_host (settings st)
   \<and> lm_studio_model (settings (snd (update_settings update_data st)))
       = lm_studio_model (settings st)
   \<and> chroma_persist_dir (settings (snd (update_settings update_data st)))
       = chroma_persist_dir (settings st)
   \<and> chroma_collection_name (settings (snd (update_settings update_data st)))
       = chroma_collection_name (settings st)
   \<and> embedding_model (settings (snd (update_settings update_data st)))
       = embedding_model (settings st)
   \<and> embedding_device (settings (snd (update_settings update_data st)))
       = embedding_device (settings st)
   \<and> chunk_size (settings (snd (update_settings update_data st))) = chunk_size (settings st)
   \<and> chunk_overlap (settings (snd (update_settings update_data st)))
       = chunk_overlap (settings st)
   \<and> cors_origins (settings (snd (update_settings update_data st)))
       = cors_origins (settings st)"
  by (rule fixed_part_fields [OF update_settings_frame])

lemma example_update_result:
  "update_settings example_update default_app =
     (Inr [ustr ''llm.base_url'', ustr ''rag.top_k''],
      \<lparr>settings = default_settings\<lparr>lm_studio_base_url := JStr (ustr ''http://10.0.0.2:1234/v1''),
                                    rag_top_k := JInt 5\<rparr>,
       llm_client = \<lparr>base_url = JStr (ustr ''http://10.0.0.2:1234/v1''),
                     model = lm_studio_model default_settings\<rparr>\<rparr>)"
  by (simp add: update_settings_def update_llm_settings_def update_rag_settings_def
        update_rag_top_k_def update_rag_similarity_threshold_def example_update_def
        default_app_def ustr_def Let_def)

lemma example_bad_update_result:
  "update_settings example_bad_update default_app =
     (Inl TypeError,
      \<lparr>settings = default_settings\<lparr>lm_studio_base_url := JInt 7\<rparr>,
       llm_client = \<lparr>base_url = JInt 7, model = lm_studio_model default_settings\<rparr>\<rparr>)"
  by (simp add: update_settings_def update_llm_settings_def update_rag_settings_def
        update_rag_top_k_def update_rag_similarity_threshold_def example_bad_update_def
        default_app_def ustr_def Let_def)


theorem update_settings_changes_only_mutable_fields_witness:
  "backend_port (settings (snd (update_settings example_update default_app))) = 8000
   \<and> chunk_size (settings (snd (update_settings example_update default_app))) = 1000
   \<and> lm_studio_model (settings (snd (update_settings example_update default_app)))
       = lm_studio_model default_settings
   \<and> cors_origins (settings (snd (update_settings example_update default_app)))
       = cors_origins default_settings
   \<and> rag_top_k (settings (snd (update_settings example_update default_app))) = JInt 5
   \<and> chunk_overlap (settings (snd (update_settings example_bad_update default_app))) = 200
   \<and> fst (update_settings example_bad_update default_app) = Inl TypeError"
  using update_settings_changes_only_mutable_fields [of example_update default_app]
        update_settings_changes_only_mutable_fields [of example_bad_update default_app]
  by (simp add: example_update_result example_bad_update_result)
     (simp add: default_app_def default_settings_def)

end
